theory Spec2Isabelle
  imports Main
begin

section \<open>Python values and exceptions\<close>

text \<open>
  The module \<^verbatim>\<open>ase.py\<close> wraps the boto SDK. A string is the sequence of bytes that
  encodes a text.
\<close>

datatype exn =
    ASEException string
  | KeyError string
  | AttributeError string
  | BotoError string

text \<open>
  \<^verbatim>\<open>str.lower\<close> is a builtin of the interpreter, not code of the module, and what it
  does to a letter outside ASCII depends on the kind of string (byte string or text) and
  on the interpreter. Every method below therefore takes it as its first parameter
  \<open>lower\<close>, and the general theorems hold for every such function. On a text of ASCII
  characters only, every variant of the builtin maps A-Z to a-z and leaves the other
  characters alone: that is \<open>ascii_lower\<close>, used for the concrete runs, all of which are
  on ASCII names.
\<close>

definition ascii_lower_char :: "char \<Rightarrow> char" where
  "ascii_lower_char c =
     (let n = (of_char c :: nat) in if 65 \<le> n \<and> n \<le> 90 then char_of (n + 32) else c)"

definition ascii_lower :: "string \<Rightarrow> string" where
  "ascii_lower s = map ascii_lower_char s"

text \<open>Python's \<^verbatim>\<open>sub in s\<close> on strings: \<^verbatim>\<open>sub\<close> occurs in \<^verbatim>\<open>s\<close> at some position.\<close>

fun starts_with :: "string \<Rightarrow> string \<Rightarrow> bool" where
  "starts_with [] s = True"
| "starts_with (p # ps) [] = False"
| "starts_with (p # ps) (c # cs) = (p = c \<and> starts_with ps cs)"

fun str_in :: "string \<Rightarrow> string \<Rightarrow> bool" where
  "str_in sub [] = (sub = [])"
| "str_in sub (c # cs) = (starts_with sub (c # cs) \<or> str_in sub cs)"

section \<open>Configuration\<close>

text \<open>
  The configuration is the dictionary loaded from the YAML file: under the key
  \<^verbatim>\<open>aws_accounts\<close> a list of account dictionaries with the keys \<^verbatim>\<open>name\<close>,
  \<^verbatim>\<open>key\<close> and \<^verbatim>\<open>secret\<close>. A subscript on a missing key raises \<^verbatim>\<open>KeyError\<close>.
\<close>

type_synonym account = "string \<rightharpoonup> string"

type_synonym config = "string \<rightharpoonup> account list"

definition subscript :: "(string \<rightharpoonup> 'v) \<Rightarrow> string \<Rightarrow> exn + 'v" where
  "subscript d k = (case d k of None \<Rightarrow> Inl (KeyError k) | Some v \<Rightarrow> Inr v)"

record creds =
  access_key :: string
  secret_key :: string

section \<open>The boto objects\<close>

datatype ec2_connection = EC2Connection nat

datatype elb_connection = ELBConnection nat

datatype load_balancer = LoadBalancer string

datatype security_group = SecurityGroup string

record region_info =
  rg_name :: string

record ec2_instance =
  i_id :: string
  i_tags :: "(string \<times> string) list"
  i_region :: region_info

record reservation =
  r_instances :: "ec2_instance list"

record event =
  ev_code :: string
  ev_description :: string
  ev_not_before :: string
  ev_not_after :: string

text \<open>\<^verbatim>\<open>events\<close> of an instance status is \<^verbatim>\<open>None\<close> when the instance has no event.\<close>

record instance_status =
  s_id :: string
  s_events :: "event list option"

text \<open>
  The SDK is the external collaborator. Each entry point either returns its result or
  raises; which of the two is up to the SDK, so the enumerator is modelled over an
  arbitrary table of responses.
\<close>

record boto =
  sdk_connect_ec2 :: "string \<Rightarrow> string \<Rightarrow> exn + ec2_connection"
  sdk_get_all_regions :: "ec2_connection \<Rightarrow> exn + region_info list"
  sdk_region_connect :: "region_info \<Rightarrow> string \<Rightarrow> string \<Rightarrow> exn + ec2_connection"
  sdk_get_all_reservations :: "ec2_connection \<Rightarrow> exn + reservation list"
  sdk_elb_connect_to_region :: "string \<Rightarrow> string \<Rightarrow> string \<Rightarrow> exn + elb_connection"
  sdk_get_all_load_balancers :: "elb_connection \<Rightarrow> exn + load_balancer list"
  sdk_get_all_instance_status :: "ec2_connection \<Rightarrow> exn + instance_status list"
  sdk_get_all_security_groups :: "ec2_connection \<Rightarrow> exn + security_group list"

text \<open>Every call made to the SDK is recorded, in order, in a trace.\<close>

datatype sdk_call =
    ConnectEC2 string string
  | GetAllRegions ec2_connection
  | RegionConnect region_info string string
  | GetAllReservations ec2_connection
  | ELBConnectToRegion string string string
  | GetAllLoadBalancers elb_connection
  | GetAllInstanceStatus ec2_connection
  | GetAllSecurityGroups ec2_connection

section \<open>Computations that may raise and that call the SDK\<close>

type_synonym 'a py = "sdk_call list \<Rightarrow> (exn + 'a) \<times> sdk_call list"

definition ret :: "'a \<Rightarrow> 'a py" where
  "ret v h = (Inr v, h)"

definition lift :: "exn + 'a \<Rightarrow> 'a py" where
  "lift r h = (r, h)"

definition call :: "sdk_call \<Rightarrow> exn + 'a \<Rightarrow> 'a py" where
  "call c r h = (r, h @ [c])"

definition bind :: "'a py \<Rightarrow> ('a \<Rightarrow> 'b py) \<Rightarrow> 'b py" where
  "bind m f h = (case m h of (Inl e, h') \<Rightarrow> (Inl e, h') | (Inr v, h') \<Rightarrow> f v h')"

text \<open>
  \<^verbatim>\<open>try: body except: raise ASEException(msg)\<close>. The bare \<^verbatim>\<open>except\<close> catches every
  exception, an \<^verbatim>\<open>ASEException\<close> raised by a nested method included.
\<close>

definition try_except :: "'a py \<Rightarrow> string \<Rightarrow> 'a py" where
  "try_except body msg h =
     (case body h of (Inl e, h') \<Rightarrow> (Inl (ASEException msg), h') | (Inr v, h') \<Rightarrow> (Inr v, h'))"

text \<open>\<^verbatim>\<open>for x in xs: acc = body(x, acc)\<close>; an exception in the body leaves the loop.\<close>

fun for_loop :: "('a \<Rightarrow> 's \<Rightarrow> 's py) \<Rightarrow> 'a list \<Rightarrow> 's \<Rightarrow> 's py" where
  "for_loop body [] acc h = (Inr acc, h)"
| "for_loop body (x # xs) acc h =
     (case body x acc h of
        (Inl e, h') \<Rightarrow> (Inl e, h')
      | (Inr acc', h') \<Rightarrow> for_loop body xs acc' h')"

text \<open>\<^verbatim>\<open>for x in xs: acc.append(x)\<close>\<close>

definition append_each :: "'a list \<Rightarrow> 'a list \<Rightarrow> 'a list" where
  "append_each acc xs = foldl (\<lambda>a x. a @ [x]) acc xs"

section \<open>AwsSecurityEnumerator\<close>

definition get_all_aws_accounts :: "config \<Rightarrow> account list py" where
  "get_all_aws_accounts cfg = lift (subscript cfg ''aws_accounts'')"

text \<open>
  The scan of \<^verbatim>\<open>get_account_api_creds\<close>: the stored name is compared, as it is, with the
  lower-cased argument, and the first entry that compares equal is returned.
\<close>

fun get_account_api_creds_scan ::
  "(string \<Rightarrow> string) \<Rightarrow> account list \<Rightarrow> string \<Rightarrow> exn + creds" where
  "get_account_api_creds_scan lower [] account_name =
     Inl (ASEException ''Cannot obtain credentials for specified account'')"
| "get_account_api_creds_scan lower (account # accounts) account_name =
     (case subscript account ''name'' of
        Inl e \<Rightarrow> Inl e
      | Inr n \<Rightarrow>
          if n = lower account_name then
            (case subscript account ''key'' of
               Inl e \<Rightarrow> Inl e
             | Inr k \<Rightarrow>
                 (case subscript account ''secret'' of
                    Inl e \<Rightarrow> Inl e
                  | Inr s \<Rightarrow> Inr \<lparr>access_key = k, secret_key = s\<rparr>))
          else get_account_api_creds_scan lower accounts account_name)"

definition get_account_api_creds ::
  "(string \<Rightarrow> string) \<Rightarrow> config \<Rightarrow> string \<Rightarrow> creds py" where
  "get_account_api_creds lower cfg account_name =
     bind (lift (subscript cfg ''aws_accounts''))
       (\<lambda>accounts. lift (get_account_api_creds_scan lower accounts account_name))"

definition ec2_connect_all_regions ::
  "(string \<Rightarrow> string) \<Rightarrow> boto \<Rightarrow> config \<Rightarrow> string \<Rightarrow> ec2_connection list py" where
  "ec2_connect_all_regions lower sdk cfg account_name =
     bind (get_account_api_creds lower cfg account_name) (\<lambda>creds.
       try_except
         (bind (call (ConnectEC2 (access_key creds) (secret_key creds))
                  (sdk_connect_ec2 sdk (access_key creds) (secret_key creds))) (\<lambda>ec2.
          bind (call (GetAllRegions ec2) (sdk_get_all_regions sdk ec2)) (\<lambda>regions.
          for_loop (\<lambda>region ec2s.
              bind (call (RegionConnect region (access_key creds) (secret_key creds))
                      (sdk_region_connect sdk region (access_key creds) (secret_key creds)))
                (\<lambda>ec2. ret (ec2s @ [ec2])))
            regions [])))
         ''Cannot connect to ec2 region'')"

definition get_instances_for_account ::
  "(string \<Rightarrow> string) \<Rightarrow> boto \<Rightarrow> config \<Rightarrow> string \<Rightarrow> ec2_instance list py" where
  "get_instances_for_account lower sdk cfg account_name =
     try_except
       (bind (ec2_connect_all_regions lower sdk cfg account_name) (\<lambda>ec2s.
        bind (for_loop (\<lambda>ec2 res_list.
                bind (call (GetAllReservations ec2) (sdk_get_all_reservations sdk ec2))
                  (\<lambda>reservations. ret (append_each res_list reservations)))
              ec2s []) (\<lambda>res_list.
        ret (concat (map r_instances res_list)))))
       ''Cannot get instances for named account''"

definition account_names :: "account list \<Rightarrow> string list py" where
  "account_names accounts =
     for_loop (\<lambda>i names. bind (lift (subscript i ''name'')) (\<lambda>n. ret (names @ [n])))
       accounts []"

definition get_all_instances ::
  "(string \<Rightarrow> string) \<Rightarrow> boto \<Rightarrow> config \<Rightarrow> ec2_instance list py" where
  "get_all_instances lower sdk cfg =
     try_except
       (bind (get_all_aws_accounts cfg) (\<lambda>all_accounts.
        bind (account_names all_accounts) (\<lambda>accounts.
        for_loop (\<lambda>a results.
            bind (get_instances_for_account lower sdk cfg a) (\<lambda>r. ret (results @ r)))
          accounts [])))
       ''Cannot get all instances''"

definition get_elbs_for_account ::
  "(string \<Rightarrow> string) \<Rightarrow> boto \<Rightarrow> config \<Rightarrow> string \<Rightarrow> load_balancer list py" where
  "get_elbs_for_account lower sdk cfg account_name =
     bind (get_account_api_creds lower cfg account_name) (\<lambda>creds.
     bind (call (ConnectEC2 (access_key creds) (secret_key creds))
             (sdk_connect_ec2 sdk (access_key creds) (secret_key creds))) (\<lambda>ec2.
     bind (call (GetAllRegions ec2) (sdk_get_all_regions sdk ec2)) (\<lambda>regions.
     try_except
       (for_loop (\<lambda>region elb_hosts.
           bind (call (ELBConnectToRegion (rg_name region) (access_key creds) (secret_key creds))
                   (sdk_elb_connect_to_region sdk (rg_name region)
                      (access_key creds) (secret_key creds))) (\<lambda>elb.
           bind (call (GetAllLoadBalancers elb) (sdk_get_all_load_balancers sdk elb))
             (\<lambda>lbs. ret (append_each elb_hosts lbs))))
          regions [])
       ''Cannot get ELBs for named account'')))"

definition get_all_elbs ::
  "(string \<Rightarrow> string) \<Rightarrow> boto \<Rightarrow> config \<Rightarrow> load_balancer list py" where
  "get_all_elbs lower sdk cfg =
     try_except
       (bind (get_all_aws_accounts cfg) (\<lambda>all_accounts.
        bind (account_names all_accounts) (\<lambda>accounts.
        for_loop (\<lambda>a results.
            bind (get_elbs_for_account lower sdk cfg a) (\<lambda>r. ret (results @ r)))
          accounts [])))
       ''Cannot get all ELBs''"

definition get_all_instance_status ::
  "(string \<Rightarrow> string) \<Rightarrow> boto \<Rightarrow> config \<Rightarrow> string \<Rightarrow> instance_status list py" where
  "get_all_instance_status lower sdk cfg account_name =
     try_except
       (bind (ec2_connect_all_regions lower sdk cfg account_name) (\<lambda>ec2s.
        for_loop (\<lambda>e i_status.
            bind (call (GetAllInstanceStatus e) (sdk_get_all_instance_status sdk e))
              (\<lambda>sts. ret (append_each i_status sts)))
          ec2s []))
       ''Cannot obtain instance status''"

text \<open>
  The dictionary appended to \<^verbatim>\<open>non_ok\<close> by \<^verbatim>\<open>get_all_instance_events\<close>, with the keys
  of the source.
\<close>

record maintenance_event =
  instance_id :: string
  completed :: bool
  event_code :: string
  descript :: string
  time_nb4 :: string
  time_nafter :: string
  tags :: "(string \<times> string) list"
  account :: string
  region :: string

text \<open>
  The variable \<^verbatim>\<open>instance\<close> starts as the empty string and is overwritten by every
  instance of the list whose id equals the status entry's id; the scan has no
  \<^verbatim>\<open>break\<close>. A string has no attribute \<^verbatim>\<open>tags\<close> or \<^verbatim>\<open>region\<close>.
\<close>

datatype instance_var = Str string | Inst ec2_instance

definition find_instance :: "ec2_instance list \<Rightarrow> string \<Rightarrow> instance_var" where
  "find_instance instances sid =
     foldl (\<lambda>inst i. if i_id i = sid then Inst i else inst) (Str []) instances"

fun attr_tags :: "instance_var \<Rightarrow> exn + (string \<times> string) list" where
  "attr_tags (Str s) = Inl (AttributeError ''tags'')"
| "attr_tags (Inst i) = Inr (i_tags i)"

fun attr_region :: "instance_var \<Rightarrow> exn + region_info" where
  "attr_region (Str s) = Inl (AttributeError ''region'')"
| "attr_region (Inst i) = Inr (i_region i)"

text \<open>The body of the loop over \<^verbatim>\<open>s.events\<close>: one dictionary for one event.\<close>

definition event_record ::
  "string \<Rightarrow> ec2_instance list \<Rightarrow> instance_status \<Rightarrow> event \<Rightarrow> exn + maintenance_event" where
  "event_record account_name instances s ev =
     (let inst = find_instance instances (s_id s);
          compl = (if str_in ''[Completed]'' (ev_description ev) then True else False)
      in case attr_tags inst of
           Inl e \<Rightarrow> Inl e
         | Inr tgs \<Rightarrow>
             (case attr_region inst of
                Inl e \<Rightarrow> Inl e
              | Inr rg \<Rightarrow>
                  Inr \<lparr>instance_id = s_id s, completed = compl, event_code = ev_code ev,
                       descript = ev_description ev, time_nb4 = ev_not_before ev,
                       time_nafter = ev_not_after ev, tags = tgs,
                       account = account_name, region = rg_name rg\<rparr>))"

text \<open>\<^verbatim>\<open>if s.events:\<close> is false for \<^verbatim>\<open>None\<close> and for the empty list.\<close>

definition truthy_events :: "event list option \<Rightarrow> event list" where
  "truthy_events evs = (case evs of None \<Rightarrow> [] | Some es \<Rightarrow> es)"

definition status_events ::
  "string \<Rightarrow> ec2_instance list \<Rightarrow> instance_status \<Rightarrow> maintenance_event list \<Rightarrow>
   maintenance_event list py" where
  "status_events account_name instances s non_ok =
     for_loop (\<lambda>ev acc.
         bind (lift (event_record account_name instances s ev)) (\<lambda>r. ret (acc @ [r])))
       (truthy_events (s_events s)) non_ok"

definition get_all_instance_events ::
  "(string \<Rightarrow> string) \<Rightarrow> boto \<Rightarrow> config \<Rightarrow> string \<Rightarrow> maintenance_event list py" where
  "get_all_instance_events lower sdk cfg account_name =
     bind (get_all_instance_status lower sdk cfg account_name) (\<lambda>status_list.
     bind (get_instances_for_account lower sdk cfg account_name) (\<lambda>instances.
     try_except
       (for_loop (status_events account_name instances) status_list [])
       ''Cannot get instance maintenance events''))"

definition get_security_groups ::
  "(string \<Rightarrow> string) \<Rightarrow> boto \<Rightarrow> config \<Rightarrow> string \<Rightarrow> security_group list py" where
  "get_security_groups lower sdk cfg account_name =
     bind (ec2_connect_all_regions lower sdk cfg account_name) (\<lambda>ec2s.
     try_except
       (for_loop (\<lambda>e sgroups.
           bind (call (GetAllSecurityGroups e) (sdk_get_all_security_groups sdk e))
             (\<lambda>gs. ret (append_each sgroups gs)))
          ec2s [])
       ''Cannot get security groups for named account'')"

definition get_all_security_groups ::
  "(string \<Rightarrow> string) \<Rightarrow> boto \<Rightarrow> config \<Rightarrow> security_group list py" where
  "get_all_security_groups lower sdk cfg =
     try_except
       (bind (get_all_aws_accounts cfg) (\<lambda>all_accounts.
        bind (account_names all_accounts) (\<lambda>accounts.
        for_loop (\<lambda>a results.
            bind (get_security_groups lower sdk cfg a) (\<lambda>r. ret (results @ r)))
          accounts [])))
       ''Cannot get all security groups''"

section \<open>A mock SDK for concrete runs\<close>

text \<open>
  Three regions and one connection per account and region: the connections of the
  account with access key \<^verbatim>\<open>K\<close> are numbered 1, 2, 3, those of any other account 11,
  12, 13, and 0 is the default-region client. The per-connection listing results are
  supplied by the caller.
\<close>

definition mock_regions :: "region_info list" where
  "mock_regions = [\<lparr>rg_name = ''us-east-1''\<rparr>, \<lparr>rg_name = ''us-west-2''\<rparr>,
                   \<lparr>rg_name = ''eu-west-1''\<rparr>]"

definition mock_connection_number :: "string \<Rightarrow> string \<Rightarrow> nat" where
  "mock_connection_number n ak =
     (if n = ''us-east-1'' then 1 else if n = ''us-west-2'' then 2 else 3)
     + (if ak = ''K'' then 0 else 10)"

definition mock_boto ::
  "(nat \<Rightarrow> exn + reservation list) \<Rightarrow> (nat \<Rightarrow> exn + instance_status list) \<Rightarrow> boto" where
  "mock_boto reservations statuses =
     \<lparr>sdk_connect_ec2 = (\<lambda>ak sk. Inr (EC2Connection 0)),
      sdk_get_all_regions = (\<lambda>c. Inr mock_regions),
      sdk_region_connect =
        (\<lambda>r ak sk. Inr (EC2Connection (mock_connection_number (rg_name r) ak))),
      sdk_get_all_reservations = (\<lambda>c. case c of EC2Connection n \<Rightarrow> reservations n),
      sdk_elb_connect_to_region =
        (\<lambda>n ak sk. Inr (ELBConnection (mock_connection_number n ak))),
      sdk_get_all_load_balancers = (\<lambda>c. Inr []),
      sdk_get_all_instance_status = (\<lambda>c. case c of EC2Connection n \<Rightarrow> statuses n),
      sdk_get_all_security_groups = (\<lambda>c. Inr [])\<rparr>"

definition prod_account :: account where
  "prod_account = [''name'' \<mapsto> ''prod'', ''key'' \<mapsto> ''K'', ''secret'' \<mapsto> ''S'']"

definition dev_account :: account where
  "dev_account = [''name'' \<mapsto> ''dev'', ''key'' \<mapsto> ''K2'', ''secret'' \<mapsto> ''S2'']"

definition prod_dev_config :: config where
  "prod_dev_config = [''aws_accounts'' \<mapsto> [prod_account, dev_account]]"

definition mock_instance :: "string \<Rightarrow> string \<Rightarrow> string \<Rightarrow> ec2_instance" where
  "mock_instance iid nm rg =
     \<lparr>i_id = iid, i_tags = [(''Name'', nm)], i_region = \<lparr>rg_name = rg\<rparr>\<rparr>"

text \<open>Fixtures: two events, two instances, and listings that answer in one region.\<close>

definition reboot_event :: event where
  "reboot_event = \<lparr>ev_code = ''system-reboot'', ev_description = ''[Completed] scheduled reboot'',
                    ev_not_before = ''2015-01-01'', ev_not_after = ''2015-01-02''\<rparr>"

definition retirement_event :: event where
  "retirement_event = \<lparr>ev_code = ''instance-retirement'', ev_description = ''Completed soon'',
                        ev_not_before = ''2015-02-01'', ev_not_after = ''2015-02-02''\<rparr>"

definition web_instance :: ec2_instance where
  "web_instance = mock_instance ''i-1'' ''web'' ''us-east-1''"

definition db_instance :: ec2_instance where
  "db_instance = mock_instance ''i-2'' ''db'' ''us-west-2''"

definition two_account_reservations :: "nat \<Rightarrow> exn + reservation list" where
  "two_account_reservations n =
     (if n = 1 then Inr [\<lparr>r_instances = [web_instance]\<rparr>]
      else if n = 12 then Inr [\<lparr>r_instances = [db_instance]\<rparr>]
      else Inr [])"

definition east_reservations :: "ec2_instance list \<Rightarrow> nat \<Rightarrow> exn + reservation list" where
  "east_reservations instances n = (if n = 1 then Inr [\<lparr>r_instances = instances\<rparr>] else Inr [])"

definition east_statuses :: "instance_status list \<Rightarrow> nat \<Rightarrow> exn + instance_status list" where
  "east_statuses status_list n = (if n = 1 then Inr status_list else Inr [])"

text \<open>A configuration whose only entry is stored with a capital letter.\<close>

definition capital_config :: config where
  "capital_config =
     [''aws_accounts'' \<mapsto> [[''name'' \<mapsto> ''Prod'', ''key'' \<mapsto> ''K'', ''secret'' \<mapsto> ''S'']]]"

text \<open>Two SDKs that raise before any region is visited.\<close>

definition quiet_boto :: boto where
  "quiet_boto = mock_boto (\<lambda>n. Inr []) (\<lambda>n. Inr [])"

definition auth_failing_boto :: boto where
  "auth_failing_boto = quiet_boto\<lparr>sdk_connect_ec2 := \<lambda>ak sk. Inl (BotoError ''AuthFailure'')\<rparr>"

definition regions_failing_boto :: boto where
  "regions_failing_boto =
     quiet_boto\<lparr>sdk_get_all_regions := \<lambda>c. Inl (BotoError ''RequestLimitExceeded'')\<rparr>"

section \<open>Notions used in the statements\<close>

text \<open>
  A computation is uniform when its result does not depend on the trace it starts from
  and it only appends calls to that trace.
\<close>

definition uniform :: "'a py \<Rightarrow> bool" where
  "uniform m \<longleftrightarrow> (\<exists>r d. \<forall>h. m h = (r, h @ d))"

text \<open>The events of a list of status entries, in order, each with its status entry.\<close>

definition status_event_pairs :: "instance_status list \<Rightarrow> (instance_status \<times> event) list" where
  "status_event_pairs status_list =
     concat (map (\<lambda>s. map (Pair s) (truthy_events (s_events s))) status_list)"

section \<open>Basic facts\<close>

lemma append_each_eq: "append_each acc xs = acc @ xs"
  unfolding append_each_def by (induction xs arbitrary: acc) simp_all

lemma ascii_lower_char_idem: "ascii_lower_char (ascii_lower_char c) = ascii_lower_char c"
  by (simp add: ascii_lower_char_def Let_def)

lemma ascii_lower_idem: "ascii_lower (ascii_lower s) = ascii_lower s"
  by (simp add: ascii_lower_def ascii_lower_char_idem)

section \<open>Credential lookup\<close>

lemma scan_no_match:
  "\<forall>a\<in>set accounts. \<exists>n. a ''name'' = Some n \<and> n \<noteq> lower account_name \<Longrightarrow>
   get_account_api_creds_scan lower accounts account_name =
     Inl (ASEException ''Cannot obtain credentials for specified account'')"
  by (induction accounts) (auto simp: subscript_def)

lemma scan_first_match:
  assumes "\<forall>b\<in>set pre. \<exists>m. b ''name'' = Some m \<and> m \<noteq> lower account_name"
    and "a ''name'' = Some (lower account_name)"
    and "a ''key'' = Some k" and "a ''secret'' = Some s"
  shows "get_account_api_creds_scan lower (pre @ a # post) account_name =
           Inr \<lparr>access_key = k, secret_key = s\<rparr>"
  using assms by (induction pre) (auto simp: subscript_def)

text \<open>
  Where the stored name is in lower case, the lookup does not depend on the case of the
  argument: the first entry with that name is returned and no SDK call is made.
\<close>

lemma creds_lower_case_entry:
  assumes "cfg ''aws_accounts'' = Some (pre @ a # post)"
    and "a ''name'' = Some n" and "lower n = n"
    and "a ''key'' = Some k" and "a ''secret'' = Some s"
    and "\<forall>b\<in>set pre. \<exists>m. b ''name'' = Some m \<and> m \<noteq> n"
    and "lower account_name = lower n"
  shows "get_account_api_creds lower cfg account_name h =
           (Inr \<lparr>access_key = k, secret_key = s\<rparr>, h)"
proof -
  have n: "n = lower account_name" using assms(3,7) by simp
  have "get_account_api_creds_scan lower (pre @ a # post) account_name =
          Inr \<lparr>access_key = k, secret_key = s\<rparr>"
    using assms(2,4,5,6) unfolding n by (intro scan_first_match) auto
  then show ?thesis
    using assms(1) by (simp add: get_account_api_creds_def bind_def lift_def subscript_def)
qed

text \<open>
  C1 does not hold of the code: only the argument is lower-cased, the stored name is
  compared as it is. An entry stored as \<^verbatim>\<open>Prod\<close> is found under no spelling, not even
  its own, and \<^verbatim>\<open>get_all_instances\<close>, which looks every stored name up, fails on such a
  configuration whatever the SDK answers.
\<close>

theorem capital_entry_unreachable:
  "ascii_lower ''PROD'' = ascii_lower ''Prod'' \<and>
   get_account_api_creds ascii_lower capital_config ''PROD'' h =
     (Inl (ASEException ''Cannot obtain credentials for specified account''), h) \<and>
   get_account_api_creds ascii_lower capital_config ''Prod'' h =
     (Inl (ASEException ''Cannot obtain credentials for specified account''), h) \<and>
   get_all_instances ascii_lower sdk capital_config h =
     (Inl (ASEException ''Cannot get all instances''), h)"
proof -
  have l: "ascii_lower ''PROD'' = ''prod''" "ascii_lower ''Prod'' = ''prod''" by code_simp+
  have c1: "get_account_api_creds ascii_lower capital_config ''PROD'' h =
     (Inl (ASEException ''Cannot obtain credentials for specified account''), h)"
    by (simp add: l capital_config_def get_account_api_creds_def bind_def lift_def
        subscript_def)
  have c2: "get_account_api_creds ascii_lower capital_config ''Prod'' h =
     (Inl (ASEException ''Cannot obtain credentials for specified account''), h)"
    by (simp add: l capital_config_def get_account_api_creds_def bind_def lift_def
        subscript_def)
  have c3: "ec2_connect_all_regions ascii_lower sdk capital_config ''Prod'' h =
     (Inl (ASEException ''Cannot obtain credentials for specified account''), h)"
    unfolding ec2_connect_all_regions_def by (simp add: bind_def c2)
  have c4: "get_instances_for_account ascii_lower sdk capital_config ''Prod'' h =
     (Inl (ASEException ''Cannot get instances for named account''), h)"
    unfolding get_instances_for_account_def by (simp add: try_except_def bind_def c3)
  have c5: "get_all_instances ascii_lower sdk capital_config h =
     (Inl (ASEException ''Cannot get all instances''), h)"
    unfolding get_all_instances_def get_all_aws_accounts_def account_names_def
    by (simp add: try_except_def bind_def lift_def ret_def subscript_def capital_config_def
        c4 [unfolded capital_config_def])
  from l c1 c2 c5 show ?thesis by simp
qed

text \<open>
  C9: when the configuration lists accounts, each with a name, and no name equals the
  argument up to letter case (the lower-cased name differs from the lower-cased
  argument), \<^verbatim>\<open>get_account_api_creds\<close> raises the lookup error
  \<^verbatim>\<open>ASEException('Cannot obtain credentials for specified account')\<close> and the trace of
  SDK calls is what it was before: no SDK call has been made. This holds for every
  lower-casing function that leaves the lower-cased argument as it is, as
  \<^verbatim>\<open>str.lower\<close> does.
\<close>

theorem creds_no_match:
  assumes "cfg ''aws_accounts'' = Some accounts"
    and "lower (lower account_name) = lower account_name"
    and "\<forall>a\<in>set accounts. \<exists>n. a ''name'' = Some n \<and> lower n \<noteq> lower account_name"
  shows "get_account_api_creds lower cfg account_name h =
           (Inl (ASEException ''Cannot obtain credentials for specified account''), h)"
proof -
  have "\<forall>a\<in>set accounts. \<exists>n. a ''name'' = Some n \<and> n \<noteq> lower account_name"
  proof
    fix a assume "a \<in> set accounts"
    with assms(3) obtain n where n: "a ''name'' = Some n"
      and neq: "lower n \<noteq> lower account_name" by blast
    from neq assms(2) have "n \<noteq> lower account_name" by auto
    with n show "\<exists>n. a ''name'' = Some n \<and> n \<noteq> lower account_name" by blast
  qed
  then show ?thesis
    using assms(1)
    by (simp add: get_account_api_creds_def bind_def lift_def subscript_def scan_no_match)
qed

theorem creds_no_match_witness:
  "get_account_api_creds ascii_lower
     [''aws_accounts'' \<mapsto> [[''name'' \<mapsto> ''prod'', ''key'' \<mapsto> ''K'', ''secret'' \<mapsto> ''S'']]]
     ''Dev'' [ConnectEC2 ''a'' ''b''] =
   (Inl (ASEException ''Cannot obtain credentials for specified account''),
    [ConnectEC2 ''a'' ''b''])"
proof -
  have l: "ascii_lower ''prod'' = ''prod''" "ascii_lower ''Dev'' = ''dev''"
    "ascii_lower ''dev'' = ''dev''" by code_simp+
  show ?thesis
    by (rule creds_no_match [where accounts =
          "[[''name'' \<mapsto> ''prod'', ''key'' \<mapsto> ''K'', ''secret'' \<mapsto> ''S'']]"])
       (simp_all add: l)
qed

section \<open>A configuration without the accounts key\<close>

text \<open>
  C10: when the configuration dictionary has no key \<^verbatim>\<open>aws_accounts\<close>,
  \<^verbatim>\<open>get_all_aws_accounts\<close> raises the raw \<^verbatim>\<open>KeyError\<close>, not an \<^verbatim>\<open>ASEException\<close>, and each
  of the three all-accounts operations, which call it inside their \<^verbatim>\<open>try\<close>, raises an
  \<^verbatim>\<open>ASEException\<close> with its own fixed message; no SDK call is made.
\<close>

theorem missing_aws_accounts_key:
  assumes "cfg ''aws_accounts'' = None"
  shows "get_all_aws_accounts cfg h = (Inl (KeyError ''aws_accounts''), h)
       \<and> get_all_instances lower sdk cfg h = (Inl (ASEException ''Cannot get all instances''), h)
       \<and> get_all_elbs lower sdk cfg h = (Inl (ASEException ''Cannot get all ELBs''), h)
       \<and> get_all_security_groups lower sdk cfg h =
           (Inl (ASEException ''Cannot get all security groups''), h)"
  using assms
  by (simp add: get_all_aws_accounts_def get_all_instances_def get_all_elbs_def
      get_all_security_groups_def try_except_def bind_def lift_def subscript_def)

theorem missing_aws_accounts_key_witness:
  "get_all_aws_accounts Map.empty [] = (Inl (KeyError ''aws_accounts''), [])
   \<and> get_all_instances ascii_lower quiet_boto Map.empty [] =
       (Inl (ASEException ''Cannot get all instances''), [])
   \<and> get_all_elbs ascii_lower quiet_boto Map.empty [] =
       (Inl (ASEException ''Cannot get all ELBs''), [])
   \<and> get_all_security_groups ascii_lower quiet_boto Map.empty [] =
       (Inl (ASEException ''Cannot get all security groups''), [])"
  using missing_aws_accounts_key
    [where cfg = Map.empty and h = "[]" and sdk = quiet_boto and lower = ascii_lower]
  by simp

section \<open>Traces and loops\<close>

lemma uniformI: "(\<And>h. m h = (r, h @ d)) \<Longrightarrow> uniform m"
  unfolding uniform_def by blast

lemma uniform_ret: "uniform (ret v)"
  by (rule uniformI [where d = "[]"]) (simp add: ret_def)

lemma uniform_lift: "uniform (lift r)"
  by (rule uniformI [where d = "[]"]) (simp add: lift_def)

lemma uniform_call: "uniform (call c r)"
  by (rule uniformI [where d = "[c]"]) (simp add: call_def)

lemma uniform_bind:
  assumes "uniform m" and "\<And>v. uniform (f v)"
  shows "uniform (bind m f)"
proof -
  from assms(1) obtain r d where m: "\<And>h. m h = (r, h @ d)"
    unfolding uniform_def by blast
  show ?thesis
  proof (cases r)
    case (Inl e)
    show ?thesis
      by (rule uniformI [where r = "Inl e" and d = d]) (simp add: bind_def m Inl)
  next
    case (Inr v)
    from assms(2) [of v] obtain r' d' where f: "\<And>h. f v h = (r', h @ d')"
      unfolding uniform_def by blast
    show ?thesis
      by (rule uniformI [where r = r' and d = "d @ d'"]) (simp add: bind_def m Inr f)
  qed
qed

lemma uniform_try_except:
  assumes "uniform m"
  shows "uniform (try_except m msg)"
proof -
  from assms obtain r d where m: "\<And>h. m h = (r, h @ d)"
    unfolding uniform_def by blast
  show ?thesis
    by (rule uniformI [where r = "case r of Inl e \<Rightarrow> Inl (ASEException msg) | Inr v \<Rightarrow> Inr v"
          and d = d])
       (simp add: try_except_def m split: sum.splits)
qed

lemma for_loop_Cons_bind:
  "for_loop body (x # xs) acc = bind (body x acc) (for_loop body xs)"
  by (rule ext) (simp add: bind_def)

lemma uniform_for_loop:
  assumes "\<And>x acc. uniform (body x acc)"
  shows "uniform (for_loop body xs acc)"
proof (induction xs arbitrary: acc)
  case Nil
  show ?case by (rule uniformI [where d = "[]"]) simp
next
  case (Cons x xs)
  show ?case
    unfolding for_loop_Cons_bind by (rule uniform_bind [OF assms Cons.IH])
qed

lemmas uniform_intros =
  uniform_ret uniform_lift uniform_call uniform_bind uniform_try_except uniform_for_loop

lemma uniform_get_account_api_creds: "uniform (get_account_api_creds lower cfg a)"
  unfolding get_account_api_creds_def by (intro uniform_intros)

lemma uniform_ec2_connect_all_regions: "uniform (ec2_connect_all_regions lower sdk cfg a)"
  unfolding ec2_connect_all_regions_def
  by (intro uniform_intros uniform_get_account_api_creds)

lemma uniform_get_instances_for_account: "uniform (get_instances_for_account lower sdk cfg a)"
  unfolding get_instances_for_account_def
  by (intro uniform_intros uniform_ec2_connect_all_regions)

lemma uniform_fst: "uniform m \<Longrightarrow> fst (m h) = fst (m h')"
  unfolding uniform_def by auto

lemma bind_Inr: "m h = (Inr v, h') \<Longrightarrow> f v h' = r \<Longrightarrow> bind m f h = r"
  by (simp add: bind_def)

lemma bind_Inl: "m h = (Inl e, h') \<Longrightarrow> bind m f h = (Inl e, h')"
  by (simp add: bind_def)

lemma fst_bind_Inr: "m h = (Inr v, h') \<Longrightarrow> fst (f v h') = r \<Longrightarrow> fst (bind m f h) = r"
  by (simp add: bind_def)

lemma fst_bind_Inl: "fst (m h) = Inl e \<Longrightarrow> fst (bind m f h) = Inl e"
  by (cases "m h") (simp add: bind_def)

lemma try_except_Inr: "m h = (Inr v, h') \<Longrightarrow> try_except m msg h = (Inr v, h')"
  by (simp add: try_except_def)

lemma try_except_Inl:
  "m h = (Inl e, h') \<Longrightarrow> try_except m msg h = (Inl (ASEException msg), h')"
  by (simp add: try_except_def)

lemma try_except_fst_Inl:
  "fst (m h) = Inl e \<Longrightarrow> fst (try_except m msg h) = Inl (ASEException msg)"
  by (cases "m h") (simp add: try_except_def)

lemma try_except_fst_Inr:
  "fst (m h) = Inr v \<Longrightarrow> fst (try_except m msg h) = Inr v"
  by (cases "m h") (simp add: try_except_def)

lemma for_loop_Inr:
  "body x acc h = (Inr acc', h') \<Longrightarrow>
   for_loop body (x # xs) acc h = for_loop body xs acc' h'"
  by simp

lemma for_loop_Inl:
  "body x acc h = (Inl e, h') \<Longrightarrow> for_loop body (x # xs) acc h = (Inl e, h')"
  by simp

lemma account_names_ok:
  "map (\<lambda>a. a ''name'') accounts = map Some names \<Longrightarrow>
   for_loop (\<lambda>i names. bind (lift (subscript i ''name'')) (\<lambda>n. ret (names @ [n])))
     accounts acc h = (Inr (acc @ names), h)"
proof (induction accounts arbitrary: names acc)
  case Nil
  then show ?case by simp
next
  case (Cons a accounts)
  then obtain n ns where names: "names = n # ns" and a: "a ''name'' = Some n"
    and rest: "map (\<lambda>a. a ''name'') accounts = map Some ns"
    by (cases names) auto
  have body: "bind (lift (subscript a ''name'')) (\<lambda>n. ret (acc @ [n])) h = (Inr (acc @ [n]), h)"
    by (simp add: bind_def lift_def ret_def subscript_def a)
  show ?case
    using Cons.IH [OF rest, of "acc @ [n]"] by (simp add: body names)
qed

lemma all_accounts_loop:
  assumes "\<forall>a\<in>set names. fst (m a []) = Inr (f a)" and "\<And>a. uniform (m a)"
  shows "fst (for_loop (\<lambda>a results. bind (m a) (\<lambda>r. ret (results @ r))) names acc h) =
           Inr (acc @ concat (map f names))"
  using assms(1)
proof (induction names arbitrary: acc h)
  case Nil
  then show ?case by simp
next
  case (Cons a names)
  have "fst (m a h) = Inr (f a)"
    using Cons.prems uniform_fst [OF assms(2), of a h "[]"] by simp
  then obtain h' where step: "m a h = (Inr (f a), h')"
    by (cases "m a h") simp
  have body: "bind (m a) (\<lambda>r. ret (acc @ r)) h = (Inr (acc @ f a), h')"
    by (rule bind_Inr, rule step) (simp add: ret_def)
  have "fst (for_loop (\<lambda>a results. bind (m a) (\<lambda>r. ret (results @ r))) names
               (acc @ f a) h') = Inr ((acc @ f a) @ concat (map f names))"
    using Cons.prems by (intro Cons.IH) simp
  then show ?case
    by (simp add: body)
qed

text \<open>
  C5: when the configuration lists accounts that all have a name and
  \<^verbatim>\<open>get_instances_for_account\<close> succeeds on every one of these names, \<^verbatim>\<open>get_all_instances\<close>
  returns the concatenation of the per-account results, in the order of the accounts in
  the configuration.
\<close>

theorem get_all_instances_concat:
  assumes "cfg ''aws_accounts'' = Some accounts"
    and "map (\<lambda>a. a ''name'') accounts = map Some names"
    and "\<forall>a\<in>set names. fst (get_instances_for_account lower sdk cfg a []) = Inr (f a)"
  shows "fst (get_all_instances lower sdk cfg h) = Inr (concat (map f names))"
proof -
  have accs: "get_all_aws_accounts cfg h = (Inr accounts, h)"
    by (simp add: get_all_aws_accounts_def lift_def subscript_def assms(1))
  have names: "account_names accounts h = (Inr names, h)"
    unfolding account_names_def using account_names_ok [OF assms(2), of "[]" h] by simp
  have loop: "fst (for_loop (\<lambda>a results.
                 bind (get_instances_for_account lower sdk cfg a) (\<lambda>r. ret (results @ r)))
               names [] h) = Inr (concat (map f names))"
    using all_accounts_loop [where m = "get_instances_for_account lower sdk cfg" and acc = "[]",
        OF assms(3) uniform_get_instances_for_account]
    by simp
  show ?thesis
    unfolding get_all_instances_def
    by (rule try_except_fst_Inr, rule fst_bind_Inr, rule accs, rule fst_bind_Inr, rule names,
        rule loop)
qed

lemma listing_loop_fails:
  assumes "c \<in> set ec2s" and "g c = Inl e"
  shows "\<exists>e'. fst (for_loop (\<lambda>ec2 res_list.
                  bind (call (k ec2) (g ec2)) (\<lambda>rs. ret (append_each res_list rs)))
                ec2s acc h) = Inl e'"
  using assms(1)
proof (induction ec2s arbitrary: acc h)
  case Nil
  then show ?case by simp
next
  case (Cons x xs)
  show ?case
  proof (cases "g x")
    case (Inl e0)
    have "bind (call (k x) (g x)) (\<lambda>rs. ret (append_each acc rs)) h = (Inl e0, h @ [k x])"
      by (simp add: bind_def call_def Inl)
    then show ?thesis by simp
  next
    case (Inr rs)
    with assms(2) Cons.prems have "c \<in> set xs" by auto
    have "bind (call (k x) (g x)) (\<lambda>rs. ret (append_each acc rs)) h =
            (Inr (append_each acc rs), h @ [k x])"
      by (simp add: bind_def call_def ret_def Inr)
    with Cons.IH [OF \<open>c \<in> set xs\<close>] show ?thesis
      by simp
  qed
qed

text \<open>
  C4: when one of the per-region connections of an account fails in its listing call
  \<^verbatim>\<open>get_all_reservations\<close>, \<^verbatim>\<open>get_instances_for_account\<close> raises
  \<^verbatim>\<open>ASEException('Cannot get instances for named account')\<close>: the result is the
  exception and carries no list, so nothing gathered from the earlier regions is returned.
\<close>

theorem region_failure_fails_whole_listing:
  assumes "ec2_connect_all_regions lower sdk cfg account_name h = (Inr ec2s, h1)"
    and "c \<in> set ec2s"
    and "sdk_get_all_reservations sdk c = Inl e"
  shows "fst (get_instances_for_account lower sdk cfg account_name h) =
           Inl (ASEException ''Cannot get instances for named account'')"
proof -
  obtain e' where loop: "fst (for_loop (\<lambda>ec2 res_list.
        bind (call (GetAllReservations ec2) (sdk_get_all_reservations sdk ec2))
          (\<lambda>rs. ret (append_each res_list rs))) ec2s [] h1) = Inl e'"
    using listing_loop_fails [where g = "sdk_get_all_reservations sdk" and k = GetAllReservations,
        OF assms(2,3), of "[]" h1] by blast
  show ?thesis
    unfolding get_instances_for_account_def
  proof (rule try_except_fst_Inl [where e = e'])
    show "fst (bind (ec2_connect_all_regions lower sdk cfg account_name)
            (\<lambda>ec2s. bind (for_loop (\<lambda>ec2 res_list.
                bind (call (GetAllReservations ec2) (sdk_get_all_reservations sdk ec2))
                  (\<lambda>reservations. ret (append_each res_list reservations))) ec2s [])
              (\<lambda>res_list. ret (concat (map r_instances res_list)))) h) = Inl e'"
      by (rule fst_bind_Inr, rule assms(1), rule fst_bind_Inl, rule loop)
  qed
qed

lemma lower_prod: "ascii_lower ''prod'' = ''prod''" by code_simp
lemma lower_dev: "ascii_lower ''dev'' = ''dev''" by code_simp

lemma prod_creds:
  "get_account_api_creds ascii_lower prod_dev_config ''prod'' h =
     (Inr \<lparr>access_key = ''K'', secret_key = ''S''\<rparr>, h)"
  by (simp add: get_account_api_creds_def prod_dev_config_def prod_account_def dev_account_def
      bind_def lift_def subscript_def lower_prod)

lemma dev_creds:
  "get_account_api_creds ascii_lower prod_dev_config ''dev'' h =
     (Inr \<lparr>access_key = ''K2'', secret_key = ''S2''\<rparr>, h)"
  by (simp add: get_account_api_creds_def prod_dev_config_def prod_account_def dev_account_def
      bind_def lift_def subscript_def lower_dev)

lemma mock_connect_prod:
  "ec2_connect_all_regions ascii_lower (mock_boto rs sts) prod_dev_config ''prod'' h =
     (Inr [EC2Connection 1, EC2Connection 2, EC2Connection 3],
      h @ [ConnectEC2 ''K'' ''S'', GetAllRegions (EC2Connection 0),
           RegionConnect \<lparr>rg_name = ''us-east-1''\<rparr> ''K'' ''S'',
           RegionConnect \<lparr>rg_name = ''us-west-2''\<rparr> ''K'' ''S'',
           RegionConnect \<lparr>rg_name = ''eu-west-1''\<rparr> ''K'' ''S''])"
  unfolding ec2_connect_all_regions_def
  by (rule bind_Inr, rule prod_creds)
     (simp add: mock_boto_def mock_regions_def mock_connection_number_def
        try_except_def bind_def call_def ret_def)

lemma mock_connect_dev:
  "ec2_connect_all_regions ascii_lower (mock_boto rs sts) prod_dev_config ''dev'' h =
     (Inr [EC2Connection 11, EC2Connection 12, EC2Connection 13],
      h @ [ConnectEC2 ''K2'' ''S2'', GetAllRegions (EC2Connection 0),
           RegionConnect \<lparr>rg_name = ''us-east-1''\<rparr> ''K2'' ''S2'',
           RegionConnect \<lparr>rg_name = ''us-west-2''\<rparr> ''K2'' ''S2'',
           RegionConnect \<lparr>rg_name = ''eu-west-1''\<rparr> ''K2'' ''S2''])"
  unfolding ec2_connect_all_regions_def
  by (rule bind_Inr, rule dev_creds)
     (simp add: mock_boto_def mock_regions_def mock_connection_number_def
        try_except_def bind_def call_def ret_def)

lemma mock_instances:
  "(\<And>n. n \<in> {1, 2, 3} \<Longrightarrow> rs n = Inr (f n)) \<Longrightarrow>
   get_instances_for_account ascii_lower (mock_boto rs sts) prod_dev_config ''prod'' h =
     (Inr (concat (map r_instances (f 1 @ f 2 @ f 3))),
      h @ [ConnectEC2 ''K'' ''S'', GetAllRegions (EC2Connection 0),
           RegionConnect \<lparr>rg_name = ''us-east-1''\<rparr> ''K'' ''S'',
           RegionConnect \<lparr>rg_name = ''us-west-2''\<rparr> ''K'' ''S'',
           RegionConnect \<lparr>rg_name = ''eu-west-1''\<rparr> ''K'' ''S'',
           GetAllReservations (EC2Connection 1), GetAllReservations (EC2Connection 2),
           GetAllReservations (EC2Connection 3)])"
  unfolding get_instances_for_account_def
  by (rule try_except_Inr, rule bind_Inr, rule mock_connect_prod)
     (simp add: bind_def call_def ret_def mock_boto_def append_each_eq)

theorem region_failure_fails_whole_listing_witness:
  "fst (get_instances_for_account ascii_lower
          (mock_boto (\<lambda>n. if n = 2 then Inl (BotoError ''timeout'')
                           else Inr [\<lparr>r_instances = [mock_instance ''i-1'' ''web'' ''us-east-1'']\<rparr>])
             (\<lambda>n. Inr []))
          prod_dev_config ''prod'' []) =
     Inl (ASEException ''Cannot get instances for named account'')"
  by (rule region_failure_fails_whole_listing [where c = "EC2Connection 2"],
      rule mock_connect_prod) (simp_all add: mock_boto_def)


section \<open>Maintenance events\<close>

lemma starts_with_iff: "starts_with p s \<longleftrightarrow> (\<exists>post. s = p @ post)"
  by (induction p s rule: starts_with.induct) auto

lemma str_in_iff: "str_in sub s \<longleftrightarrow> (\<exists>pre post. s = pre @ sub @ post)"
proof (induction s)
  case Nil
  show ?case by auto
next
  case (Cons c cs)
  show ?case
  proof
    assume "str_in sub (c # cs)"
    then consider "starts_with sub (c # cs)" | "str_in sub cs" by auto
    then show "\<exists>pre post. c # cs = pre @ sub @ post"
    proof cases
      case 1
      then obtain post where "c # cs = [] @ sub @ post"
        unfolding starts_with_iff by auto
      then show ?thesis by blast
    next
      case 2
      then obtain pre post where "cs = pre @ sub @ post"
        using Cons.IH by blast
      then have "c # cs = (c # pre) @ sub @ post" by simp
      then show ?thesis by blast
    qed
  next
    assume "\<exists>pre post. c # cs = pre @ sub @ post"
    then obtain pre post where eq: "c # cs = pre @ sub @ post" by blast
    show "str_in sub (c # cs)"
    proof (cases pre)
      case Nil
      with eq have "starts_with sub (c # cs)"
        unfolding starts_with_iff by auto
      then show ?thesis by simp
    next
      case (Cons p ps)
      with eq have "cs = ps @ sub @ post" by simp
      then have "str_in sub cs" using Cons.IH by blast
      then show ?thesis by simp
    qed
  qed
qed

lemma find_instance_snoc:
  "find_instance (instances @ [i]) sid =
     (if i_id i = sid then Inst i else find_instance instances sid)"
  by (simp add: find_instance_def)

lemma find_instance_eq:
  "find_instance instances sid =
     (if filter (\<lambda>i. i_id i = sid) instances = [] then Str []
      else Inst (last (filter (\<lambda>i. i_id i = sid) instances)))"
proof (induction instances rule: rev_induct)
  case Nil
  show ?case by (simp add: find_instance_def)
next
  case (snoc i instances)
  then show ?case by (simp add: find_instance_snoc)
qed

lemma event_record_Inr:
  assumes "event_record account_name instances s ev = Inr r"
  shows "filter (\<lambda>i. i_id i = s_id s) instances \<noteq> []
       \<and> r = \<lparr>instance_id = s_id s,
              completed = str_in ''[Completed]'' (ev_description ev),
              event_code = ev_code ev, descript = ev_description ev,
              time_nb4 = ev_not_before ev, time_nafter = ev_not_after ev,
              tags = i_tags (last (filter (\<lambda>i. i_id i = s_id s) instances)),
              account = account_name,
              region = rg_name (i_region (last (filter (\<lambda>i. i_id i = s_id s) instances)))\<rparr>"
  using assms
  by (auto simp: event_record_def find_instance_eq Let_def split: if_splits)

lemma event_record_no_match:
  assumes "\<forall>i\<in>set instances. i_id i \<noteq> s_id s"
  shows "event_record account_name instances s ev = Inl (AttributeError ''tags'')"
proof -
  have "filter (\<lambda>i. i_id i = s_id s) instances = []"
    using assms by (simp add: filter_empty_conv)
  then show ?thesis
    by (simp add: event_record_def find_instance_eq)
qed

lemma collect_step:
  "bind (lift (g x)) (\<lambda>r. ret (acc @ [r])) h =
     (case g x of Inl e \<Rightarrow> (Inl e, h) | Inr r \<Rightarrow> (Inr (acc @ [r]), h))"
  by (simp add: bind_def lift_def ret_def split: sum.splits)

lemma collect_loop_trace:
  assumes "\<And>x acc h. body x acc h =
             (case g x of Inl e \<Rightarrow> (Inl e, h) | Inr r \<Rightarrow> (Inr (acc @ [r]), h))"
  shows "snd (for_loop body xs acc h) = h"
proof (induction xs arbitrary: acc)
  case Nil
  show ?case by simp
next
  case (Cons x xs)
  show ?case
  proof (cases "g x")
    case (Inl e)
    have step: "body x acc h = (Inl e, h)" by (simp add: assms Inl)
    have "for_loop body (x # xs) acc h = (Inl e, h)"
      by (rule for_loop_Inl) (rule step)
    then show ?thesis by (simp only: snd_conv)
  next
    case (Inr r)
    have step: "body x acc h = (Inr (acc @ [r]), h)" by (simp add: assms Inr)
    have "for_loop body (x # xs) acc h = for_loop body xs (acc @ [r]) h"
      by (rule for_loop_Inr) (rule step)
    then show ?thesis by (simp only: Cons.IH)
  qed
qed

lemma collect_loop_Inr:
  assumes "\<And>x acc h. body x acc h =
             (case g x of Inl e \<Rightarrow> (Inl e, h) | Inr r \<Rightarrow> (Inr (acc @ [r]), h))"
    and "for_loop body xs acc h = (Inr recs, h')"
  shows "\<exists>new. recs = acc @ new \<and> list_all2 (\<lambda>r x. g x = Inr r) new xs"
  using assms(2)
proof (induction xs arbitrary: acc)
  case Nil
  then show ?case by simp
next
  case (Cons x xs)
  show ?case
  proof (cases "g x")
    case (Inl e)
    have step: "body x acc h = (Inl e, h)" by (simp add: assms(1) Inl)
    have "for_loop body (x # xs) acc h = (Inl e, h)"
      by (rule for_loop_Inl) (rule step)
    with Cons.prems have "(Inl e, h) = (Inr recs, h')" by (simp only:)
    then show ?thesis by simp
  next
    case (Inr r)
    have step: "body x acc h = (Inr (acc @ [r]), h)" by (simp add: assms(1) Inr)
    have "for_loop body (x # xs) acc h = for_loop body xs (acc @ [r]) h"
      by (rule for_loop_Inr) (rule step)
    with Cons.prems have "for_loop body xs (acc @ [r]) h = (Inr recs, h')"
      by (simp only:)
    from Cons.IH [OF this] obtain new where "recs = (acc @ [r]) @ new"
      and "list_all2 (\<lambda>r x. g x = Inr r) new xs" by blast
    then have "recs = acc @ (r # new) \<and> list_all2 (\<lambda>r x. g x = Inr r) (r # new) (x # xs)"
      using Inr by simp
    then show ?thesis by blast
  qed
qed

lemma collect_loop_Inl:
  assumes "\<And>x acc h. body x acc h =
             (case g x of Inl e \<Rightarrow> (Inl e, h) | Inr r \<Rightarrow> (Inr (acc @ [r]), h))"
    and "x \<in> set xs" and "g x = Inl e"
  shows "\<exists>e'. for_loop body xs acc h = (Inl e', h)"
  using assms(2)
proof (induction xs arbitrary: acc)
  case Nil
  then show ?case by simp
next
  case (Cons y ys)
  show ?case
  proof (cases "g y")
    case (Inl e0)
    have step: "body y acc h = (Inl e0, h)" by (simp add: assms(1) Inl)
    have "for_loop body (y # ys) acc h = (Inl e0, h)"
      by (rule for_loop_Inl) (rule step)
    then show ?thesis by blast
  next
    case (Inr r)
    with Cons.prems assms(3) have "x \<in> set ys" by auto
    have step: "body y acc h = (Inr (acc @ [r]), h)" by (simp add: assms(1) Inr)
    have "for_loop body (y # ys) acc h = for_loop body ys (acc @ [r]) h"
      by (rule for_loop_Inr) (rule step)
    with Cons.IH [OF \<open>x \<in> set ys\<close>, of "acc @ [r]"] show ?thesis
      by (simp only:)
  qed
qed

lemma status_events_trace: "snd (status_events account_name instances s acc h) = h"
  unfolding status_events_def
  by (rule collect_loop_trace [where g = "event_record account_name instances s"])
     (rule collect_step)

lemma status_events_Inr:
  assumes "status_events account_name instances s acc h = (Inr recs, h')"
  shows "\<exists>new. recs = acc @ new \<and>
     list_all2 (\<lambda>r ev. event_record account_name instances s ev = Inr r) new
       (truthy_events (s_events s))"
  by (rule collect_loop_Inr [where g = "event_record account_name instances s"],
      rule collect_step, rule assms [unfolded status_events_def])

lemma status_events_Inl:
  assumes "truthy_events (s_events s) \<noteq> []" and "\<forall>i\<in>set instances. i_id i \<noteq> s_id s"
  shows "\<exists>e. status_events account_name instances s acc h = (Inl e, h)"
proof -
  from assms(1) obtain ev where ev: "ev \<in> set (truthy_events (s_events s))"
    by (cases "truthy_events (s_events s)") auto
  show ?thesis
    unfolding status_events_def
    by (rule collect_loop_Inl [where g = "event_record account_name instances s"],
        rule collect_step, rule ev, rule event_record_no_match [OF assms(2)])
qed

lemma events_loop_trace:
  "snd (for_loop (status_events account_name instances) status_list acc h) = h"
proof (induction status_list arbitrary: acc)
  case Nil
  show ?case by simp
next
  case (Cons s status_list)
  obtain r where r: "status_events account_name instances s acc h = (r, h)"
    using status_events_trace [of account_name instances s acc h]
    by (cases "status_events account_name instances s acc h") simp
  show ?case using Cons.IH by (cases r) (simp_all add: r)
qed

lemma list_all2_pairs:
  "list_all2 (\<lambda>r ev. P r (s, ev)) rs evs \<Longrightarrow> list_all2 P rs (map (Pair s) evs)"
  by (simp add: list_all2_map2)

lemma events_loop_Inr:
  "for_loop (status_events account_name instances) status_list acc h = (Inr recs, h') \<Longrightarrow>
   \<exists>new. recs = acc @ new \<and>
     list_all2 (\<lambda>r (s, ev). event_record account_name instances s ev = Inr r) new
       (status_event_pairs status_list)"
proof (induction status_list arbitrary: acc)
  case Nil
  then show ?case by (simp add: status_event_pairs_def)
next
  case (Cons s status_list)
  obtain r where r: "status_events account_name instances s acc h = (r, h)"
    using status_events_trace [of account_name instances s acc h]
    by (cases "status_events account_name instances s acc h") simp
  show ?case
  proof (cases r)
    case (Inl e)
    with Cons.prems r show ?thesis by simp
  next
    case (Inr acc')
    from status_events_Inr [OF r [unfolded Inr]] obtain new1 where acc': "acc' = acc @ new1"
      and new1: "list_all2 (\<lambda>r ev. event_record account_name instances s ev = Inr r) new1
                   (truthy_events (s_events s))" by blast
    from Cons.prems r Inr
    have "for_loop (status_events account_name instances) status_list acc' h = (Inr recs, h')"
      by simp
    from Cons.IH [OF this] obtain new2 where recs: "recs = acc' @ new2"
      and new2: "list_all2 (\<lambda>r (s, ev). event_record account_name instances s ev = Inr r) new2
                   (status_event_pairs status_list)" by blast
    have "list_all2 (\<lambda>r (s, ev). event_record account_name instances s ev = Inr r) new1
            (map (Pair s) (truthy_events (s_events s)))"
      using new1 by (simp add: list_all2_map2)
    with new2 have "list_all2 (\<lambda>r (s, ev). event_record account_name instances s ev = Inr r)
        (new1 @ new2) (status_event_pairs (s # status_list))"
      by (simp add: status_event_pairs_def list_all2_appendI)
    moreover have "recs = acc @ new1 @ new2" using recs acc' by simp
    ultimately show ?thesis by blast
  qed
qed

lemma events_loop_Inl:
  assumes "s \<in> set status_list" and "truthy_events (s_events s) \<noteq> []"
    and "\<forall>i\<in>set instances. i_id i \<noteq> s_id s"
  shows "\<exists>e. for_loop (status_events account_name instances) status_list acc h = (Inl e, h)"
  using assms(1)
proof (induction status_list arbitrary: acc)
  case Nil
  then show ?case by simp
next
  case (Cons t status_list)
  obtain r where r: "status_events account_name instances t acc h = (r, h)"
    using status_events_trace [of account_name instances t acc h]
    by (cases "status_events account_name instances t acc h") simp
  show ?case
  proof (cases r)
    case (Inl e)
    with r show ?thesis by simp
  next
    case (Inr acc')
    have "t \<noteq> s"
      using status_events_Inl [OF assms(2,3), of account_name acc h] r Inr by auto
    with Cons.prems have "s \<in> set status_list" by auto
    from Cons.IH [OF this] show ?thesis by (simp add: r Inr)
  qed
qed

lemma uniform_get_all_instance_status: "uniform (get_all_instance_status lower sdk cfg a)"
  unfolding get_all_instance_status_def
  by (intro uniform_intros uniform_ec2_connect_all_regions)

lemma event_record_completed:
  assumes "event_record account_name instances s ev = Inr r"
  shows "descript r = ev_description ev \<and>
         (completed r \<longleftrightarrow> (\<exists>pre post. ev_description ev = pre @ ''[Completed]'' @ post))"
proof -
  from event_record_Inr [OF assms]
  have d: "descript r = ev_description ev"
    and c: "completed r = str_in ''[Completed]'' (ev_description ev)" by simp_all
  have "completed r \<longleftrightarrow> (\<exists>pre post. ev_description ev = pre @ ''[Completed]'' @ post)"
    unfolding c by (rule str_in_iff)
  with d show ?thesis by (rule conjI)
qed

lemma event_record_last_match:
  assumes "event_record account_name instances s ev = Inr r"
  shows "filter (\<lambda>i. i_id i = s_id s) instances \<noteq> [] \<and>
         tags r = i_tags (last (filter (\<lambda>i. i_id i = s_id s) instances)) \<and>
         region r = rg_name (i_region (last (filter (\<lambda>i. i_id i = s_id s) instances)))"
  using event_record_Inr [OF assms] by simp

lemma try_except_InrD: "try_except m msg h = (Inr v, h') \<Longrightarrow> m h = (Inr v, h')"
  by (cases "m h") (auto simp: try_except_def split: sum.splits)

lemma events_decompose:
  assumes "get_all_instance_status lower sdk cfg account_name h = (Inr status_list, h1)"
    and "get_instances_for_account lower sdk cfg account_name h1 = (Inr instances, h2)"
  shows "get_all_instance_events lower sdk cfg account_name h =
           try_except (for_loop (status_events account_name instances) status_list [])
             ''Cannot get instance maintenance events'' h2"
  unfolding get_all_instance_events_def
  by (rule bind_Inr, rule assms(1), rule bind_Inr, rule assms(2), rule refl)

lemma events_run:
  assumes "fst (get_all_instance_status lower sdk cfg account_name h) = Inr status_list"
    and "fst (get_instances_for_account lower sdk cfg account_name h) = Inr instances"
  shows "\<exists>h2. get_all_instance_events lower sdk cfg account_name h =
           try_except (for_loop (status_events account_name instances) status_list [])
             ''Cannot get instance maintenance events'' h2"
proof -
  obtain h1
    where st: "get_all_instance_status lower sdk cfg account_name h = (Inr status_list, h1)"
    using assms(1) by (cases "get_all_instance_status lower sdk cfg account_name h") simp
  have "fst (get_instances_for_account lower sdk cfg account_name h1) = Inr instances"
    using uniform_fst [OF uniform_get_instances_for_account, of lower sdk cfg account_name h1 h]
      assms(2)
    by simp
  then obtain h2
    where ins: "get_instances_for_account lower sdk cfg account_name h1 = (Inr instances, h2)"
    by (cases "get_instances_for_account lower sdk cfg account_name h1") simp
  from events_decompose [OF st ins] show ?thesis by blast
qed

lemma events_returned:
  assumes "fst (get_all_instance_status lower sdk cfg account_name h) = Inr status_list"
    and "fst (get_instances_for_account lower sdk cfg account_name h) = Inr instances"
    and "fst (get_all_instance_events lower sdk cfg account_name h) = Inr recs"
  shows "list_all2 (\<lambda>r (s, ev). event_record account_name instances s ev = Inr r) recs
           (status_event_pairs status_list)"
proof -
  from events_run [OF assms(1,2)] obtain h2
    where run: "get_all_instance_events lower sdk cfg account_name h =
           try_except (for_loop (status_events account_name instances) status_list [])
             ''Cannot get instance maintenance events'' h2" by blast
  obtain h3
    where "get_all_instance_events lower sdk cfg account_name h = (Inr recs, h3)"
    using assms(3) by (cases "get_all_instance_events lower sdk cfg account_name h") simp
  with run have t: "try_except (for_loop (status_events account_name instances) status_list [])
             ''Cannot get instance maintenance events'' h2 = (Inr recs, h3)"
    by (simp only:)
  have "for_loop (status_events account_name instances) status_list [] h2 = (Inr recs, h3)"
    by (rule try_except_InrD
          [where m = "for_loop (status_events account_name instances) status_list []"
             and h = h2, OF t])
  from events_loop_Inr [OF this] show ?thesis by simp
qed

text \<open>
  C6: when \<^verbatim>\<open>get_all_instance_events\<close> returns, its records are, in order, one for each
  event of each status entry, and the record of an event has that event's description
  in \<^verbatim>\<open>descript\<close> and has \<^verbatim>\<open>completed\<close> true if and only if the description contains
  the substring \<^verbatim>\<open>[Completed]\<close>.
\<close>

theorem completed_iff_marker:
  assumes "fst (get_all_instance_status lower sdk cfg account_name h) = Inr status_list"
    and "fst (get_instances_for_account lower sdk cfg account_name h) = Inr instances"
    and "fst (get_all_instance_events lower sdk cfg account_name h) = Inr recs"
  shows "list_all2
           (\<lambda>r (s, ev). descript r = ev_description ev \<and>
              (completed r \<longleftrightarrow> (\<exists>pre post. ev_description ev = pre @ ''[Completed]'' @ post)))
           recs (status_event_pairs status_list)"
proof (rule list_all2_mono [OF events_returned [OF assms]])
  fix r p
  assume a: "case p of (s, ev) \<Rightarrow> event_record account_name instances s ev = Inr r"
  obtain s ev where p: "p = (s, ev)" by (cases p)
  from a have "event_record account_name instances s ev = Inr r"
    unfolding p prod.case .
  from event_record_completed [OF this]
  show "case p of (s, ev) \<Rightarrow> descript r = ev_description ev \<and>
          (completed r \<longleftrightarrow> (\<exists>pre post. ev_description ev = pre @ ''[Completed]'' @ post))"
    unfolding p prod.case .
qed

text \<open>
  C3, amended: when \<^verbatim>\<open>get_all_instance_events\<close> returns, the \<^verbatim>\<open>tags\<close> and the
  \<^verbatim>\<open>region\<close> of the record of every event are those of the last instance of the
  instance list whose id equals the id of the event's status entry (the scan goes
  through the whole list and keeps the latest match).
\<close>

theorem instance_is_last_match:
  assumes "fst (get_all_instance_status lower sdk cfg account_name h) = Inr status_list"
    and "fst (get_instances_for_account lower sdk cfg account_name h) = Inr instances"
    and "fst (get_all_instance_events lower sdk cfg account_name h) = Inr recs"
  shows "list_all2
           (\<lambda>r (s, ev). filter (\<lambda>i. i_id i = s_id s) instances \<noteq> [] \<and>
              tags r = i_tags (last (filter (\<lambda>i. i_id i = s_id s) instances)) \<and>
              region r = rg_name (i_region (last (filter (\<lambda>i. i_id i = s_id s) instances))))
           recs (status_event_pairs status_list)"
proof (rule list_all2_mono [OF events_returned [OF assms]])
  fix r p
  assume a: "case p of (s, ev) \<Rightarrow> event_record account_name instances s ev = Inr r"
  obtain s ev where p: "p = (s, ev)" by (cases p)
  from a have "event_record account_name instances s ev = Inr r"
    unfolding p prod.case .
  from event_record_last_match [OF this]
  show "case p of (s, ev) \<Rightarrow> filter (\<lambda>i. i_id i = s_id s) instances \<noteq> [] \<and>
              tags r = i_tags (last (filter (\<lambda>i. i_id i = s_id s) instances)) \<and>
              region r = rg_name (i_region (last (filter (\<lambda>i. i_id i = s_id s) instances)))"
    unfolding p prod.case .
qed


text \<open>
  C8, amended: when a status entry with at least one event has no instance with its id
  in the instance list of the account, \<^verbatim>\<open>get_all_instance_events\<close> returns no record at
  all: it raises \<^verbatim>\<open>ASEException('Cannot get instance maintenance events')\<close>.
\<close>

theorem no_matching_instance_fails:
  assumes "fst (get_all_instance_status lower sdk cfg account_name h) = Inr status_list"
    and "fst (get_instances_for_account lower sdk cfg account_name h) = Inr instances"
    and "s \<in> set status_list" and "s_events s = Some (ev # evs)"
    and "\<forall>i\<in>set instances. i_id i \<noteq> s_id s"
  shows "fst (get_all_instance_events lower sdk cfg account_name h) =
           Inl (ASEException ''Cannot get instance maintenance events'')"
proof -
  from events_run [OF assms(1,2)] obtain h2
    where run: "get_all_instance_events lower sdk cfg account_name h =
           try_except (for_loop (status_events account_name instances) status_list [])
             ''Cannot get instance maintenance events'' h2" by blast
  have "truthy_events (s_events s) \<noteq> []"
    by (simp add: truthy_events_def assms(4))
  from events_loop_Inl [OF assms(3) this assms(5)] obtain e
    where "for_loop (status_events account_name instances) status_list [] h2 = (Inl e, h2)"
    by blast
  then show ?thesis
    unfolding run by (simp add: try_except_def)
qed

section \<open>Runs on the mock SDK\<close>

lemma mock_status:
  "(\<And>n. n \<in> {1, 2, 3} \<Longrightarrow> sts n = Inr (g n)) \<Longrightarrow>
   get_all_instance_status ascii_lower (mock_boto rs sts) prod_dev_config ''prod'' h =
     (Inr (g 1 @ g 2 @ g 3),
      h @ [ConnectEC2 ''K'' ''S'', GetAllRegions (EC2Connection 0),
           RegionConnect \<lparr>rg_name = ''us-east-1''\<rparr> ''K'' ''S'',
           RegionConnect \<lparr>rg_name = ''us-west-2''\<rparr> ''K'' ''S'',
           RegionConnect \<lparr>rg_name = ''eu-west-1''\<rparr> ''K'' ''S'',
           GetAllInstanceStatus (EC2Connection 1), GetAllInstanceStatus (EC2Connection 2),
           GetAllInstanceStatus (EC2Connection 3)])"
  unfolding get_all_instance_status_def
  by (rule try_except_Inr, rule bind_Inr, rule mock_connect_prod)
     (simp add: bind_def call_def ret_def mock_boto_def append_each_eq)

lemma east_instances:
  "fst (get_instances_for_account ascii_lower (mock_boto (east_reservations instances) sts)
          prod_dev_config ''prod'' h) = Inr instances"
  using mock_instances [where rs = "east_reservations instances" and sts = sts and h = h
      and f = "\<lambda>n. if n = 1 then [\<lparr>r_instances = instances\<rparr>] else []"]
  by (simp add: east_reservations_def)

lemma east_status:
  "fst (get_all_instance_status ascii_lower (mock_boto rs (east_statuses status_list))
          prod_dev_config ''prod'' h) = Inr status_list"
  using mock_status [where sts = "east_statuses status_list" and rs = rs and h = h
      and g = "\<lambda>n. if n = 1 then status_list else []"]
  by (simp add: east_statuses_def)

lemma east_events:
  "fst (get_all_instance_events ascii_lower
          (mock_boto (east_reservations instances) (east_statuses status_list))
          prod_dev_config ''prod'' h) =
   fst (try_except (for_loop (status_events ''prod'' instances) status_list [])
          ''Cannot get instance maintenance events'' [])"
proof -
  from events_run [OF east_status east_instances]
  obtain h2 where run: "get_all_instance_events ascii_lower
          (mock_boto (east_reservations instances) (east_statuses status_list))
          prod_dev_config ''prod'' h =
        try_except (for_loop (status_events ''prod'' instances) status_list [])
          ''Cannot get instance maintenance events'' h2" by blast
  have "uniform (for_loop (status_events ''prod'' instances) status_list [])"
    unfolding status_events_def by (intro uniform_intros)
  then have "uniform (try_except (for_loop (status_events ''prod'' instances) status_list [])
          ''Cannot get instance maintenance events'')"
    by (rule uniform_try_except)
  from uniform_fst [OF this] show ?thesis unfolding run .
qed

lemma str_in_reboot: "str_in ''[Completed]'' ''[Completed] scheduled reboot''"
  by simp

lemma str_in_retirement: "\<not> str_in ''[Completed]'' ''Completed soon''"
  by simp

lemma two_events_run:
  "fst (get_all_instance_events ascii_lower
          (mock_boto (east_reservations [web_instance])
             (east_statuses [\<lparr>s_id = ''i-1'', s_events = Some [reboot_event, retirement_event]\<rparr>]))
          prod_dev_config ''prod'' []) =
   Inr [\<lparr>instance_id = ''i-1'', completed = True, event_code = ''system-reboot'',
         descript = ''[Completed] scheduled reboot'', time_nb4 = ''2015-01-01'',
         time_nafter = ''2015-01-02'', tags = [(''Name'', ''web'')], account = ''prod'',
         region = ''us-east-1''\<rparr>,
        \<lparr>instance_id = ''i-1'', completed = False, event_code = ''instance-retirement'',
         descript = ''Completed soon'', time_nb4 = ''2015-02-01'',
         time_nafter = ''2015-02-02'', tags = [(''Name'', ''web'')], account = ''prod'',
         region = ''us-east-1''\<rparr>]"
  unfolding east_events
  by (simp add: try_except_def status_events_def truthy_events_def event_record_def
      find_instance_def web_instance_def mock_instance_def reboot_event_def
      retirement_event_def bind_def lift_def ret_def)

text \<open>
  C6 on a run: an instance with a completed reboot and a pending retirement.
\<close>

theorem completed_iff_marker_witness:
  "list_all2
     (\<lambda>r (s, ev). descript r = ev_description ev \<and>
        (completed r \<longleftrightarrow> (\<exists>pre post. ev_description ev = pre @ ''[Completed]'' @ post)))
     [\<lparr>instance_id = ''i-1'', completed = True, event_code = ''system-reboot'',
       descript = ''[Completed] scheduled reboot'', time_nb4 = ''2015-01-01'',
       time_nafter = ''2015-01-02'', tags = [(''Name'', ''web'')], account = ''prod'',
       region = ''us-east-1''\<rparr>,
      \<lparr>instance_id = ''i-1'', completed = False, event_code = ''instance-retirement'',
       descript = ''Completed soon'', time_nb4 = ''2015-02-01'',
       time_nafter = ''2015-02-02'', tags = [(''Name'', ''web'')], account = ''prod'',
       region = ''us-east-1''\<rparr>]
     (status_event_pairs
        [\<lparr>s_id = ''i-1'', s_events = Some [reboot_event, retirement_event]\<rparr>])"
  by (rule completed_iff_marker [OF east_status east_instances two_events_run])


lemma duplicate_id_run:
  "fst (get_all_instance_events ascii_lower
          (mock_boto
             (east_reservations [mock_instance ''i-1'' ''first'' ''us-east-1'',
                                 mock_instance ''i-1'' ''second'' ''us-west-2''])
             (east_statuses [\<lparr>s_id = ''i-1'', s_events = Some [reboot_event]\<rparr>]))
          prod_dev_config ''prod'' []) =
   Inr [\<lparr>instance_id = ''i-1'', completed = True, event_code = ''system-reboot'',
         descript = ''[Completed] scheduled reboot'', time_nb4 = ''2015-01-01'',
         time_nafter = ''2015-01-02'', tags = [(''Name'', ''second'')], account = ''prod'',
         region = ''us-west-2''\<rparr>]"
  unfolding east_events
  by (simp add: try_except_def status_events_def truthy_events_def event_record_def
      find_instance_def mock_instance_def reboot_event_def bind_def lift_def ret_def)

text \<open>
  C3, as stated, fails: with two instances of the same id in the list, the first match
  is the instance tagged \<^verbatim>\<open>first\<close>, and the record carries the tags and the region of
  the one tagged \<^verbatim>\<open>second\<close>.
\<close>

theorem first_match_counterexample:
  "i_id (mock_instance ''i-1'' ''first'' ''us-east-1'') = ''i-1''
   \<and> i_tags (mock_instance ''i-1'' ''first'' ''us-east-1'') = [(''Name'', ''first'')]
   \<and> fst (get_instances_for_account ascii_lower
          (mock_boto
             (east_reservations [mock_instance ''i-1'' ''first'' ''us-east-1'',
                                 mock_instance ''i-1'' ''second'' ''us-west-2''])
             (east_statuses [\<lparr>s_id = ''i-1'', s_events = Some [reboot_event]\<rparr>]))
          prod_dev_config ''prod'' []) =
     Inr [mock_instance ''i-1'' ''first'' ''us-east-1'',
          mock_instance ''i-1'' ''second'' ''us-west-2'']
   \<and> fst (get_all_instance_events ascii_lower
          (mock_boto
             (east_reservations [mock_instance ''i-1'' ''first'' ''us-east-1'',
                                 mock_instance ''i-1'' ''second'' ''us-west-2''])
             (east_statuses [\<lparr>s_id = ''i-1'', s_events = Some [reboot_event]\<rparr>]))
          prod_dev_config ''prod'' []) =
     Inr [\<lparr>instance_id = ''i-1'', completed = True, event_code = ''system-reboot'',
           descript = ''[Completed] scheduled reboot'', time_nb4 = ''2015-01-01'',
           time_nafter = ''2015-01-02'', tags = [(''Name'', ''second'')], account = ''prod'',
           region = ''us-west-2''\<rparr>]"
  unfolding duplicate_id_run east_instances by (simp add: mock_instance_def)

text \<open>
  C3, amended, on the same run.
\<close>

theorem instance_is_last_match_witness:
  "list_all2
     (\<lambda>r (s, ev).
        filter (\<lambda>i. i_id i = s_id s)
          [mock_instance ''i-1'' ''first'' ''us-east-1'',
           mock_instance ''i-1'' ''second'' ''us-west-2''] \<noteq> [] \<and>
        tags r = i_tags (last (filter (\<lambda>i. i_id i = s_id s)
          [mock_instance ''i-1'' ''first'' ''us-east-1'',
           mock_instance ''i-1'' ''second'' ''us-west-2''])) \<and>
        region r = rg_name (i_region (last (filter (\<lambda>i. i_id i = s_id s)
          [mock_instance ''i-1'' ''first'' ''us-east-1'',
           mock_instance ''i-1'' ''second'' ''us-west-2'']))))
     [\<lparr>instance_id = ''i-1'', completed = True, event_code = ''system-reboot'',
       descript = ''[Completed] scheduled reboot'', time_nb4 = ''2015-01-01'',
       time_nafter = ''2015-01-02'', tags = [(''Name'', ''second'')], account = ''prod'',
       region = ''us-west-2''\<rparr>]
     (status_event_pairs [\<lparr>s_id = ''i-1'', s_events = Some [reboot_event]\<rparr>])"
  by (rule instance_is_last_match [OF east_status east_instances duplicate_id_run])

text \<open>
  C8, as stated, fails: the status entry \<^verbatim>\<open>i-2\<close> has an event and the only instance of
  the account is \<^verbatim>\<open>i-1\<close>; the operation returns no record, it raises.
\<close>

theorem tags_absent_counterexample:
  "fst (get_all_instance_status ascii_lower
          (mock_boto (east_reservations [web_instance])
             (east_statuses [\<lparr>s_id = ''i-2'', s_events = Some [reboot_event]\<rparr>]))
          prod_dev_config ''prod'' []) =
     Inr [\<lparr>s_id = ''i-2'', s_events = Some [reboot_event]\<rparr>]
   \<and> fst (get_instances_for_account ascii_lower
          (mock_boto (east_reservations [web_instance])
             (east_statuses [\<lparr>s_id = ''i-2'', s_events = Some [reboot_event]\<rparr>]))
          prod_dev_config ''prod'' []) = Inr [web_instance]
   \<and> i_id web_instance = ''i-1''
   \<and> fst (get_all_instance_events ascii_lower
          (mock_boto (east_reservations [web_instance])
             (east_statuses [\<lparr>s_id = ''i-2'', s_events = Some [reboot_event]\<rparr>]))
          prod_dev_config ''prod'' []) =
     Inl (ASEException ''Cannot get instance maintenance events'')"
  unfolding east_events east_status east_instances
  by (simp add: try_except_def status_events_def truthy_events_def event_record_def
      find_instance_def web_instance_def mock_instance_def reboot_event_def bind_def
      lift_def ret_def)

text \<open>
  C8, amended, on a run where the second status entry has no instance.
\<close>

theorem no_matching_instance_fails_witness:
  "fst (get_all_instance_events ascii_lower
          (mock_boto (east_reservations [web_instance, db_instance])
             (east_statuses [\<lparr>s_id = ''i-1'', s_events = None\<rparr>,
                             \<lparr>s_id = ''i-3'', s_events = Some [retirement_event]\<rparr>]))
          prod_dev_config ''prod'' []) =
     Inl (ASEException ''Cannot get instance maintenance events'')"
  by (rule no_matching_instance_fails
        [where s = "\<lparr>s_id = ''i-3'', s_events = Some [retirement_event]\<rparr>"
           and ev = retirement_event and evs = "[]",
         OF east_status east_instances])
     (simp_all add: web_instance_def db_instance_def mock_instance_def)

lemma mock_instances_dev:
  "(\<And>n. n \<in> {11, 12, 13} \<Longrightarrow> rs n = Inr (f n)) \<Longrightarrow>
   get_instances_for_account ascii_lower (mock_boto rs sts) prod_dev_config ''dev'' h =
     (Inr (concat (map r_instances (f 11 @ f 12 @ f 13))),
      h @ [ConnectEC2 ''K2'' ''S2'', GetAllRegions (EC2Connection 0),
           RegionConnect \<lparr>rg_name = ''us-east-1''\<rparr> ''K2'' ''S2'',
           RegionConnect \<lparr>rg_name = ''us-west-2''\<rparr> ''K2'' ''S2'',
           RegionConnect \<lparr>rg_name = ''eu-west-1''\<rparr> ''K2'' ''S2'',
           GetAllReservations (EC2Connection 11), GetAllReservations (EC2Connection 12),
           GetAllReservations (EC2Connection 13)])"
  unfolding get_instances_for_account_def
  by (rule try_except_Inr, rule bind_Inr, rule mock_connect_dev)
     (simp add: bind_def call_def ret_def mock_boto_def append_each_eq)

lemma two_account_prod:
  "fst (get_instances_for_account ascii_lower (mock_boto two_account_reservations sts)
          prod_dev_config ''prod'' h) = Inr [web_instance]"
proof -
  have p: "\<And>n. n \<in> {1, 2, 3} \<Longrightarrow>
      two_account_reservations n = Inr (if n = 1 then [\<lparr>r_instances = [web_instance]\<rparr>] else [])"
    by (auto simp: two_account_reservations_def)
  show ?thesis
    using mock_instances [where rs = two_account_reservations and sts = sts and h = h
      and f = "\<lambda>n. if n = 1 then [\<lparr>r_instances = [web_instance]\<rparr>] else []", OF p]
    by simp
qed

lemma two_account_dev:
  "fst (get_instances_for_account ascii_lower (mock_boto two_account_reservations sts)
          prod_dev_config ''dev'' h) = Inr [db_instance]"
proof -
  have p: "\<And>n. n \<in> {11, 12, 13} \<Longrightarrow>
      two_account_reservations n = Inr (if n = 12 then [\<lparr>r_instances = [db_instance]\<rparr>] else [])"
    by (auto simp: two_account_reservations_def)
  show ?thesis
    using mock_instances_dev [where rs = two_account_reservations and sts = sts and h = h
      and f = "\<lambda>n. if n = 12 then [\<lparr>r_instances = [db_instance]\<rparr>] else []", OF p]
    by simp
qed

text \<open>
  C5 on a run with two accounts, one instance each.
\<close>

theorem get_all_instances_concat_witness:
  "fst (get_all_instances ascii_lower (mock_boto two_account_reservations (\<lambda>n. Inr []))
          prod_dev_config []) = Inr [web_instance, db_instance]"
  using get_all_instances_concat
    [where cfg = prod_dev_config and accounts = "[prod_account, dev_account]"
       and names = "[''prod'', ''dev'']"
       and sdk = "mock_boto two_account_reservations (\<lambda>n. Inr [])"
       and f = "\<lambda>a. if a = ''prod'' then [web_instance] else [db_instance]" and h = "[]"]
  by (simp add: prod_dev_config_def prod_account_def dev_account_def
      two_account_prod [unfolded prod_dev_config_def prod_account_def dev_account_def]
      two_account_dev [unfolded prod_dev_config_def prod_account_def dev_account_def])

text \<open>
  C2 does not hold of \<^verbatim>\<open>get_elbs_for_account\<close>: its first two SDK calls are made before
  the \<^verbatim>\<open>try\<close>, so an exception of \<^verbatim>\<open>connect_ec2\<close> or of \<^verbatim>\<open>get_all_regions\<close> reaches the
  caller as it was raised, not as an \<^verbatim>\<open>ASEException\<close>.
\<close>

theorem elb_connect_failure_escapes:
  "get_elbs_for_account ascii_lower auth_failing_boto prod_dev_config ''prod'' [] =
     (Inl (BotoError ''AuthFailure''), [ConnectEC2 ''K'' ''S''])
   \<and> get_elbs_for_account ascii_lower regions_failing_boto prod_dev_config ''prod'' [] =
     (Inl (BotoError ''RequestLimitExceeded''),
      [ConnectEC2 ''K'' ''S'', GetAllRegions (EC2Connection 0)])"
proof -
  have a: "get_elbs_for_account ascii_lower auth_failing_boto prod_dev_config ''prod'' [] =
     (Inl (BotoError ''AuthFailure''), [ConnectEC2 ''K'' ''S''])"
    unfolding get_elbs_for_account_def
    by (rule bind_Inr, rule prod_creds)
       (simp add: bind_def call_def auth_failing_boto_def quiet_boto_def mock_boto_def)
  have b: "get_elbs_for_account ascii_lower regions_failing_boto prod_dev_config ''prod'' [] =
     (Inl (BotoError ''RequestLimitExceeded''),
      [ConnectEC2 ''K'' ''S'', GetAllRegions (EC2Connection 0)])"
    unfolding get_elbs_for_account_def
    by (rule bind_Inr, rule prod_creds)
       (simp add: bind_def call_def regions_failing_boto_def quiet_boto_def mock_boto_def)
  from a b show ?thesis by (rule conjI)
qed

end
